theory Spec2Isabelle
  imports Main "HOL-Library.Word"
begin

section \<open>The Freesound client: data\<close>

text \<open>
  The class \<open>FreesoundDownloader::Downloader\<close> (include/freesound_downloader.h)
  has one data member, the API key, and one static constant, the base URL.
\<close>

record Downloader =
  m_api_key :: string

definition BASE_URL :: string where
  "BASE_URL = ''https://freesound.org/apiv2/''"

text \<open>
  What leaves a member function other than a value: the constructor throws
  \<open>std::invalid_argument\<close>, and a call of the HTTP library can throw an object of
  class \<open>std::exception\<close> (the class the handler of the advanced search names).
  Each carries its \<open>what()\<close> message. A fallible function returns
  \<open>error + 'a\<close>, with \<open>Inl\<close> for the exception.
\<close>

datatype error = InvalidArgument string | StdException string

fun what :: "error \<Rightarrow> string" where
  "what (InvalidArgument m) = m"
| "what (StdException m) = m"

text \<open>
  The C++ \<open>int\<close> of the parameters \<open>sound_id\<close>, \<open>page\<close> and
  \<open>page_size\<close> is a 32-bit word read as two's complement.
\<close>

type_synonym cpp_int = "32 word"

subsection \<open>The HTTP library's request and response\<close>

text \<open>
  \<open>cpr::Parameters\<close> is an ordered container of key/value pairs:
  the initialiser list gives the first entries and \<open>Add\<close> appends one.
  \<open>cpr::Response\<close> is read at two members, \<open>status_code\<close> and \<open>text\<close>
  (named \<open>response_text\<close> here). The status code is a \<open>long\<close> that the client
  only compares with 200 and prints, so its width plays no role and it is an \<open>int\<close>.
  A request holds everything a call of \<open>cpr::Get\<close> is given; \<open>timeout\<close> is in
  milliseconds, \<open>None\<close> when the call passes no \<open>cpr::Timeout\<close>.
\<close>

type_synonym Parameters = "(string \<times> string) list"

definition Add :: "Parameters \<Rightarrow> string \<times> string \<Rightarrow> Parameters" where
  "Add params p = params @ [p]"

record request =
  url :: string
  parameters :: Parameters
  header :: "(string \<times> string) list"
  timeout :: "nat option"

record response =
  status_code :: int
  response_text :: string

subsection \<open>The world outside the client\<close>

text \<open>
  Everything the client reads or changes outside its own object:
  \<^item> \<open>environ\<close>: the process environment that \<open>std::getenv\<close> reads
    (\<open>None\<close> is the null pointer of an unset variable);
  \<^item> \<open>transport\<close>: what a call of \<open>cpr::Get\<close> with a given request comes back
    with, a response or an exception;
  \<^item> \<open>requests\<close>: the requests handed to \<open>cpr::Get\<close> so far, in order;
  \<^item> \<open>files\<close>: the contents of the files, by path; \<open>openable\<close>: whether
    opening a path for writing with \<open>std::ofstream\<close> succeeds; and \<open>room\<close>: how
    many bytes a stream opened at a path takes before a write fails (a full device, a
    quota), \<open>None\<close> when it takes any number;
  \<^item> \<open>cerr\<close>: the lines written to the standard error stream.
\<close>

record world =
  environ :: "string \<rightharpoonup> string"
  transport :: "request \<Rightarrow> error + response"
  requests :: "request list"
  files :: "string \<rightharpoonup> string"
  openable :: "string \<Rightarrow> bool"
  room :: "string \<Rightarrow> nat option"
  cerr :: "string list"

definition getenv :: "world \<Rightarrow> string \<Rightarrow> string option" where
  "getenv w name = environ w name"

definition Get :: "request \<Rightarrow> world \<Rightarrow> (error + response) \<times> world" where
  "Get req w = (transport w req, w\<lparr>requests := requests w @ [req]\<rparr>)"

section \<open>Construction\<close>

text \<open>
  \<open>Downloader::Downloader(const std::string& api_key)\<close> initialises the member from
  the argument; when that is empty it reads the environment variable, and throws when the
  member is still empty.
\<close>

definition auth_failed_message :: string where
  "auth_failed_message =
     ''Freesound API authentication failed. '' @
     ''Provide API key via constructor or FREESOUND_API_KEY environment variable.''"

definition Downloader_ctor :: "world \<Rightarrow> string \<Rightarrow> error + Downloader" where
  "Downloader_ctor w api_key =
     (let this = \<lparr>m_api_key = api_key\<rparr> in
      if m_api_key this = [] then
        (let env_key = getenv w ''FREESOUND_API_KEY'';
             this = (case env_key of
                       Some k \<Rightarrow> this\<lparr>m_api_key := k\<rparr>
                     | None \<Rightarrow> this)
         in if m_api_key this = [] then Inl (InvalidArgument auth_failed_message)
            else Inr this)
      else Inr this)"

text \<open>
  The declaration's default argument:
  \<open>std::getenv("FREESOUND_API_KEY") ? std::getenv("FREESOUND_API_KEY") : ""\<close>.
\<close>

definition Downloader_default :: "world \<Rightarrow> error + Downloader" where
  "Downloader_default w =
     Downloader_ctor w
       (case getenv w ''FREESOUND_API_KEY'' of Some k \<Rightarrow> k | None \<Rightarrow> [])"

section \<open>Decimal rendering\<close>

text \<open>
  \<open>std::to_string(int)\<close> gives the decimal numeral of the value: the digits of its
  magnitude, most significant first, after a minus sign when the value is negative.
\<close>

definition digit_char :: "nat \<Rightarrow> char" where
  "digit_char d = ''0123456789'' ! d"

function decimal_digits :: "nat \<Rightarrow> string" where
  "decimal_digits n =
     (if n < 10 then [digit_char n]
      else decimal_digits (n div 10) @ [digit_char (n mod 10)])"
  by pat_completeness auto
termination
  by (relation "measure id") auto

declare decimal_digits.simps [simp del]

definition to_string_int :: "int \<Rightarrow> string" where
  "to_string_int i =
     (if i < 0 then CHR ''-'' # decimal_digits (nat (- i)) else decimal_digits (nat i))"

definition to_string :: "cpp_int \<Rightarrow> string" where
  "to_string x = to_string_int (sint x)"

text \<open>
  Reading a decimal numeral back, to say what "the decimal rendering" of an integer is:
  \<open>decimal_value\<close> is the integer a numeral denotes.
\<close>

definition digit_value :: "char \<Rightarrow> nat" where
  "digit_value c = of_char c - 48"

definition digits_value :: "string \<Rightarrow> nat" where
  "digits_value s = foldl (\<lambda>a c. 10 * a + digit_value c) 0 s"

definition decimal_value :: "string \<Rightarrow> int" where
  "decimal_value s =
     (case s of
        [] \<Rightarrow> 0
      | c # r \<Rightarrow> if c = CHR ''-'' then - int (digits_value r) else int (digits_value s))"

section \<open>The operations\<close>

text \<open>
  A member function takes the object and the world and returns its result with the object
  and the world as it leaves them. No member function is \<open>const\<close>, so each could
  assign to \<open>m_api_key\<close>; the object is returned as the body leaves it.
\<close>

type_synonym 'a method_result = "(error + 'a) \<times> Downloader \<times> world"

subsection \<open>downloadSound\<close>

text \<open>
  \<open>std::ofstream out_file(output_path, std::ios::binary)\<close> opens for writing and
  truncates: when the open succeeds the file exists and is empty, when it fails nothing
  changes and the stream tests false. \<open>write\<close> appends the \<open>size()\<close> bytes of
  the body as they are (the stream is binary), as far as the path has room: a write that
  fails leaves the bytes that went through and sets the stream's error state, which
  \<open>downloadSound\<close> never reads. \<open>close\<close> changes nothing more.
\<close>

definition ofstream_open :: "string \<Rightarrow> world \<Rightarrow> world option" where
  "ofstream_open path w =
     (if openable w path then Some (w\<lparr>files := (files w)(path \<mapsto> [])\<rparr>) else None)"

definition ofstream_write :: "string \<Rightarrow> string \<Rightarrow> world \<Rightarrow> world" where
  "ofstream_write path bytes w =
     (let old = (case files w path of None \<Rightarrow> [] | Some b \<Rightarrow> b);
          stored = (case room w path of None \<Rightarrow> bytes | Some n \<Rightarrow> take n bytes)
      in w\<lparr>files := (files w)(path \<mapsto> old @ stored)\<rparr>)"

text \<open>
  A destination is writable for a body when the path opens for writing and the stream
  takes the whole body.
\<close>

definition writable :: "world \<Rightarrow> string \<Rightarrow> string \<Rightarrow> bool" where
  "writable w path bytes =
     (openable w path \<and> (case room w path of None \<Rightarrow> True | Some n \<Rightarrow> length bytes \<le> n))"

text \<open>The request \<open>downloadSound\<close> hands to \<open>cpr::Get\<close>: the URL and the token parameter.\<close>

definition download_request :: "Downloader \<Rightarrow> cpp_int \<Rightarrow> request" where
  "download_request this sound_id =
     (let download_url = BASE_URL @ ''sounds/'' @ to_string sound_id @ ''/download/''
      in \<lparr>url = download_url,
          parameters = [(''token'', m_api_key this)],
          header = [],
          timeout = None\<rparr>)"

definition downloadSound :: "Downloader \<Rightarrow> cpp_int \<Rightarrow> string \<Rightarrow> world \<Rightarrow> bool method_result" where
  "downloadSound this sound_id output_path w =
     (let (got, w1) = Get (download_request this sound_id) w
      in case got of
           Inl e \<Rightarrow> (Inl e, this, w1)
         | Inr response \<Rightarrow>
             if status_code response \<noteq> 200 then (Inr False, this, w1)
             else (case ofstream_open output_path w1 of
                     None \<Rightarrow> (Inr False, this, w1)
                   | Some w2 \<Rightarrow>
                       (Inr True, this, ofstream_write output_path (response_text response) w2)))"

subsection \<open>searchSounds, the simple overload\<close>

definition search_request :: "Downloader \<Rightarrow> string \<Rightarrow> cpp_int \<Rightarrow> cpp_int \<Rightarrow> request" where
  "search_request this query page page_size =
     (let search_url = BASE_URL @ ''search/text/''
      in \<lparr>url = search_url,
          parameters = [(''query'', query),
                        (''token'', m_api_key this),
                        (''page'', to_string page),
                        (''page_size'', to_string page_size)],
          header = [],
          timeout = None\<rparr>)"

definition searchSounds :: "Downloader \<Rightarrow> string \<Rightarrow> cpp_int \<Rightarrow> cpp_int \<Rightarrow> world
    \<Rightarrow> string option method_result" where
  "searchSounds this query page page_size w =
     (let (got, w1) = Get (search_request this query page page_size) w
      in case got of
           Inl e \<Rightarrow> (Inl e, this, w1)
         | Inr response \<Rightarrow>
             if status_code response \<noteq> 200 then (Inr None, this, w1)
             else (Inr (Some (response_text response)), this, w1))"

subsection \<open>searchSounds, the advanced overload\<close>

text \<open>
  The parameters are built before the \<open>try\<close> block (\<open>advanced_params\<close>); the
  call of \<open>cpr::Get\<close> with them, the two headers and the timeout
  (\<open>advanced_request\<close>) and the test of the status are inside it, and the handler
  catches \<open>std::exception\<close>. Each \<open>std::endl\<close> ends a line of \<open>cerr\<close>.
\<close>

definition fields_value :: string where
  "fields_value = ''id,name,username,description,tags,preview-hq-mp3,duration''"

definition advanced_params :: "string \<Rightarrow> string option \<Rightarrow> string option \<Rightarrow> cpp_int \<Rightarrow> cpp_int
    \<Rightarrow> bool \<Rightarrow> string option \<Rightarrow> Parameters" where
  "advanced_params query filter' sort' page page_size group_by_pack weights =
     (let params = [(''query'', query),
                    (''page'', to_string page),
                    (''page_size'', to_string page_size),
                    (''fields'', fields_value)];
          params = (case filter' of Some f \<Rightarrow> Add params (''filter'', f) | None \<Rightarrow> params);
          params = (case sort' of Some s \<Rightarrow> Add params (''sort'', s) | None \<Rightarrow> params);
          params = Add params (''group_by_pack'', if group_by_pack then ''1'' else ''0'');
          params = (case weights of Some x \<Rightarrow> Add params (''weights'', x) | None \<Rightarrow> params)
      in params)"

definition advanced_request :: "Downloader \<Rightarrow> string \<Rightarrow> string option \<Rightarrow> string option
    \<Rightarrow> cpp_int \<Rightarrow> cpp_int \<Rightarrow> bool \<Rightarrow> string option \<Rightarrow> request" where
  "advanced_request this query filter' sort' page page_size group_by_pack weights =
     (let search_url = BASE_URL @ ''search/text/'';
          params = advanced_params query filter' sort' page page_size group_by_pack weights
      in \<lparr>url = search_url,
          parameters = params,
          header = [(''Authorization'', ''Token '' @ m_api_key this),
                    (''Content-Type'', ''application/json'')],
          timeout = Some 10000\<rparr>)"

definition searchSounds_advanced :: "Downloader \<Rightarrow> string \<Rightarrow> string option \<Rightarrow> string option
    \<Rightarrow> cpp_int \<Rightarrow> cpp_int \<Rightarrow> bool \<Rightarrow> string option \<Rightarrow> world \<Rightarrow> string option method_result" where
  "searchSounds_advanced this query filter' sort' page page_size group_by_pack weights w =
     (let (got, w1) =
            Get (advanced_request this query filter' sort' page page_size group_by_pack weights) w
      in case got of
           Inr response \<Rightarrow>
             if status_code response = 200 then (Inr (Some (response_text response)), this, w1)
             else (Inr None, this,
                   w1\<lparr>cerr := cerr w1 @
                      [''FREESOUND API ERROR:'',
                       ''Status Code: '' @ to_string_int (status_code response),
                       ''Full Response: '' @ response_text response]\<rparr>)
         | Inl e \<Rightarrow>
             (Inr None, this,
              w1\<lparr>cerr := cerr w1 @ [''EXCEPTION DURING FREESOUND SEARCH:'', what e]\<rparr>))"

subsection \<open>The lifetime of a client\<close>

text \<open>
  The calls a caller can make on a constructed client, and a client's life as a sequence of
  them. A result, and an exception that leaves \<open>downloadSound\<close> or the simple
  search, goes to the caller; the object lives on.
\<close>

datatype call =
    DownloadSound cpp_int string
  | SearchSounds string cpp_int cpp_int
  | SearchSoundsAdvanced string "string option" "string option" cpp_int cpp_int bool "string option"

fun invoke :: "call \<Rightarrow> Downloader \<times> world \<Rightarrow> Downloader \<times> world" where
  "invoke (DownloadSound sound_id output_path) (this, w) =
     snd (downloadSound this sound_id output_path w)"
| "invoke (SearchSounds query page page_size) (this, w) =
     snd (searchSounds this query page page_size w)"
| "invoke (SearchSoundsAdvanced query filter' sort' page page_size group_by_pack weights) (this, w) =
     snd (searchSounds_advanced this query filter' sort' page page_size group_by_pack weights w)"

fun lifetime :: "call list \<Rightarrow> Downloader \<times> world \<Rightarrow> Downloader \<times> world" where
  "lifetime [] s = s"
| "lifetime (c # cs) s = lifetime cs (invoke c s)"

section \<open>A world for examples\<close>

text \<open>
  The concrete world the examples below start from: no environment variable set, no file,
  no path that opens, no limit on what an opened stream takes, nothing sent or logged, and
  a transport that answers every request with an exception. An example changes the members it needs.
\<close>

definition offline_world :: world where
  "offline_world =
     \<lparr>environ = Map.empty,
      transport = (\<lambda>r. Inl (StdException ''connection refused'')),
      requests = [],
      files = Map.empty,
      openable = (\<lambda>p. False),
      room = (\<lambda>p. None),
      cerr = []\<rparr>"

section \<open>Properties of construction\<close>

lemma Downloader_ctor_explicit:
  "api_key \<noteq> [] \<Longrightarrow> Downloader_ctor w api_key = Inr \<lparr>m_api_key = api_key\<rparr>"
  by (simp add: Downloader_ctor_def)

lemma Downloader_ctor_empty:
  "Downloader_ctor w [] =
     (case getenv w ''FREESOUND_API_KEY'' of
        None \<Rightarrow> Inl (InvalidArgument auth_failed_message)
      | Some k \<Rightarrow> if k = [] then Inl (InvalidArgument auth_failed_message)
                  else Inr \<lparr>m_api_key = k\<rparr>)"
  by (simp add: Downloader_ctor_def split: option.split)

lemma Downloader_ctor_nonempty: "Downloader_ctor w api_key = Inr this \<Longrightarrow> m_api_key this \<noteq> []"
  by (auto simp: Downloader_ctor_def Let_def split: if_splits option.splits)

section \<open>The decimal rendering denotes the integer\<close>

text \<open>
  Reading back what \<open>to_string\<close> writes gives the integer it was given, so the
  rendering is a decimal numeral of that integer and no two integers share one.
\<close>

lemma digit_value_digit_char: "d < 10 \<Longrightarrow> digit_value (digit_char d) = d"
proof -
  assume "d < 10"
  then have "d \<in> {0, 1, 2, 3, 4, 5, 6, 7, 8, 9}" by auto
  then show ?thesis
    by (auto simp: digit_value_def digit_char_def)
qed

lemma digit_char_not_minus: "d < 10 \<Longrightarrow> digit_char d \<noteq> CHR ''-''"
proof -
  assume "d < 10"
  then have "d \<in> {0, 1, 2, 3, 4, 5, 6, 7, 8, 9}" by auto
  then show ?thesis
    by (auto simp: digit_char_def)
qed

lemma digits_value_snoc: "digits_value (s @ [c]) = 10 * digits_value s + digit_value c"
  by (simp add: digits_value_def)

lemma digits_value_decimal_digits: "digits_value (decimal_digits n) = n"
proof (induction n rule: decimal_digits.induct)
  case (1 n)
  show ?case
  proof (cases "n < 10")
    case True
    then show ?thesis
      by (simp add: decimal_digits.simps digits_value_def digit_value_digit_char)
  next
    case False
    with 1 have "digits_value (decimal_digits (n div 10)) = n div 10" by simp
    with False show ?thesis
      by (subst decimal_digits.simps) (simp add: digits_value_snoc digit_value_digit_char)
  qed
qed

lemma decimal_digits_start: "\<exists>c r. decimal_digits n = c # r \<and> c \<noteq> CHR ''-''"
proof (induction n rule: decimal_digits.induct)
  case (1 n)
  show ?case
  proof (cases "n < 10")
    case True
    then show ?thesis by (simp add: decimal_digits.simps digit_char_not_minus)
  next
    case False
    with 1 obtain c r where "decimal_digits (n div 10) = c # r" "c \<noteq> CHR ''-''" by auto
    with False show ?thesis
      by (subst decimal_digits.simps) simp
  qed
qed

lemma decimal_value_to_string_int: "decimal_value (to_string_int i) = i"
proof (cases "i < 0")
  case True
  then show ?thesis
    by (simp add: decimal_value_def to_string_int_def digits_value_decimal_digits)
next
  case False
  obtain c r where cr: "decimal_digits (nat i) = c # r" "c \<noteq> CHR ''-''"
    using decimal_digits_start by blast
  have "digits_value (c # r) = nat i"
    using digits_value_decimal_digits [of "nat i"] cr by simp
  with False cr show ?thesis
    by (simp add: decimal_value_def to_string_int_def)
qed

lemma decimal_value_to_string: "decimal_value (to_string x) = sint x"
  by (simp add: to_string_def decimal_value_to_string_int)

section \<open>What downloadSound does, case by case\<close>

text \<open>
  The ways through \<open>downloadSound\<close>: the transport throws; the status is not
  200; the status is 200 and the file does not open; the status is 200 and the file opens,
  where the file then holds what the stream took of the body: all of it when the
  destination is writable for it, a proper prefix when the write fails, and the result is
  true in both cases.
  Then the three things a call leaves behind: the object, the request log, the result.
\<close>

lemma downloadSound_raised:
  "transport w (download_request this sound_id) = Inl e \<Longrightarrow>
     downloadSound this sound_id output_path w =
       (Inl e, this, w\<lparr>requests := requests w @ [download_request this sound_id]\<rparr>)"
  by (simp add: downloadSound_def Get_def)

lemma downloadSound_rejected:
  "transport w (download_request this sound_id) = Inr response \<Longrightarrow>
   status_code response \<noteq> 200 \<Longrightarrow>
     downloadSound this sound_id output_path w =
       (Inr False, this, w\<lparr>requests := requests w @ [download_request this sound_id]\<rparr>)"
  by (simp add: downloadSound_def Get_def)

lemma downloadSound_not_opened:
  "transport w (download_request this sound_id) = Inr response \<Longrightarrow>
   status_code response = 200 \<Longrightarrow> \<not> openable w output_path \<Longrightarrow>
     downloadSound this sound_id output_path w =
       (Inr False, this, w\<lparr>requests := requests w @ [download_request this sound_id]\<rparr>)"
  by (simp add: downloadSound_def Get_def ofstream_open_def)

lemma downloadSound_opened:
  "transport w (download_request this sound_id) = Inr response \<Longrightarrow>
   status_code response = 200 \<Longrightarrow> openable w output_path \<Longrightarrow>
     downloadSound this sound_id output_path w =
       (Inr True, this,
        w\<lparr>requests := requests w @ [download_request this sound_id],
          files := (files w)(output_path \<mapsto>
            (case room w output_path of
               None \<Rightarrow> response_text response
             | Some n \<Rightarrow> take n (response_text response)))\<rparr>)"
  by (simp add: downloadSound_def Get_def ofstream_open_def ofstream_write_def)

lemma downloadSound_written:
  "transport w (download_request this sound_id) = Inr response \<Longrightarrow>
   status_code response = 200 \<Longrightarrow> writable w output_path (response_text response) \<Longrightarrow>
     downloadSound this sound_id output_path w =
       (Inr True, this,
        w\<lparr>requests := requests w @ [download_request this sound_id],
          files := (files w)(output_path \<mapsto> response_text response)\<rparr>)"
  by (simp add: downloadSound_opened writable_def split: option.splits)

lemma downloadSound_short_write:
  "transport w (download_request this sound_id) = Inr response \<Longrightarrow>
   status_code response = 200 \<Longrightarrow> openable w output_path \<Longrightarrow>
   room w output_path = Some n \<Longrightarrow> n < length (response_text response) \<Longrightarrow>
     fst (downloadSound this sound_id output_path w) = Inr True \<and>
     files (snd (snd (downloadSound this sound_id output_path w))) output_path
       = Some (take n (response_text response)) \<and>
     take n (response_text response) \<noteq> response_text response"
proof -
  assume a: "transport w (download_request this sound_id) = Inr response"
    "status_code response = 200" "openable w output_path"
    and r: "room w output_path = Some n" and n: "n < length (response_text response)"
  from n have "length (take n (response_text response)) \<noteq> length (response_text response)"
    by simp
  then have "take n (response_text response) \<noteq> response_text response"
    by metis
  with a r show ?thesis
    by (simp add: downloadSound_opened)
qed

lemma downloadSound_object: "fst (snd (downloadSound this sound_id output_path w)) = this"
  by (simp add: downloadSound_def Get_def split: sum.split option.split)

lemma downloadSound_requests:
  "requests (snd (snd (downloadSound this sound_id output_path w))) =
     requests w @ [download_request this sound_id]"
  by (simp add: downloadSound_def Get_def ofstream_open_def ofstream_write_def
      split: sum.split)

lemma downloadSound_result:
  "fst (downloadSound this sound_id output_path w) =
     (case transport w (download_request this sound_id) of
        Inl e \<Rightarrow> Inl e
      | Inr response \<Rightarrow> Inr (status_code response = 200 \<and> openable w output_path))"
  by (simp add: downloadSound_def Get_def ofstream_open_def split: sum.split)

section \<open>What the searches do\<close>

lemma searchSounds_eq:
  "searchSounds this query page page_size w =
     ((case transport w (search_request this query page page_size) of
         Inl e \<Rightarrow> Inl e
       | Inr response \<Rightarrow>
           Inr (if status_code response = 200 then Some (response_text response) else None)),
      this,
      w\<lparr>requests := requests w @ [search_request this query page page_size]\<rparr>)"
  by (simp add: searchSounds_def Get_def split: sum.split)

lemma searchSounds_advanced_result:
  "fst (searchSounds_advanced this query filter' sort' page page_size group_by_pack weights w) =
     Inr (case transport w
                 (advanced_request this query filter' sort' page page_size group_by_pack weights) of
            Inl e \<Rightarrow> None
          | Inr response \<Rightarrow>
              if status_code response = 200 then Some (response_text response) else None)"
  by (simp add: searchSounds_advanced_def Get_def split: sum.split)

lemma searchSounds_advanced_object:
  "fst (snd (searchSounds_advanced this query filter' sort' page page_size group_by_pack weights w))
     = this"
  by (simp add: searchSounds_advanced_def Get_def split: sum.split)

lemma searchSounds_advanced_requests:
  "requests (snd (snd
       (searchSounds_advanced this query filter' sort' page page_size group_by_pack weights w))) =
     requests w @ [advanced_request this query filter' sort' page page_size group_by_pack weights]"
  by (simp add: searchSounds_advanced_def Get_def split: sum.split)

text \<open>The parameters of the advanced search, as one list, and what each key maps to.\<close>

lemma advanced_params_eq:
  "advanced_params query filter' sort' page page_size group_by_pack weights =
     [(''query'', query), (''page'', to_string page), (''page_size'', to_string page_size),
      (''fields'', fields_value)]
     @ (case filter' of Some f \<Rightarrow> [(''filter'', f)] | None \<Rightarrow> [])
     @ (case sort' of Some s \<Rightarrow> [(''sort'', s)] | None \<Rightarrow> [])
     @ [(''group_by_pack'', if group_by_pack then ''1'' else ''0'')]
     @ (case weights of Some x \<Rightarrow> [(''weights'', x)] | None \<Rightarrow> [])"
  by (simp add: advanced_params_def Add_def split: option.split)

lemma advanced_params_distinct:
  "distinct (map fst (advanced_params query filter' sort' page page_size group_by_pack weights))"
  by (simp add: advanced_params_eq split: option.split)

lemma advanced_params_always:
  "map_of (advanced_params query filter' sort' page page_size group_by_pack weights) ''query''
     = Some query"
  "map_of (advanced_params query filter' sort' page page_size group_by_pack weights) ''page''
     = Some (to_string page)"
  "map_of (advanced_params query filter' sort' page page_size group_by_pack weights) ''page_size''
     = Some (to_string page_size)"
  "map_of (advanced_params query filter' sort' page page_size group_by_pack weights) ''fields''
     = Some fields_value"
  by (simp_all add: advanced_params_eq)

lemma advanced_params_group_by_pack:
  "map_of (advanced_params query filter' sort' page page_size group_by_pack weights)
       ''group_by_pack''
     = Some (if group_by_pack then ''1'' else ''0'')"
  by (simp add: advanced_params_eq map_add_def split: option.split)

lemma advanced_params_filter:
  "map_of (advanced_params query filter' sort' page page_size group_by_pack weights) ''filter''
     = filter'"
  by (simp add: advanced_params_eq map_add_def split: option.split)

lemma advanced_params_sort:
  "map_of (advanced_params query filter' sort' page page_size group_by_pack weights) ''sort''
     = sort'"
  by (simp add: advanced_params_eq map_add_def split: option.split)

lemma advanced_params_weights:
  "map_of (advanced_params query filter' sort' page page_size group_by_pack weights) ''weights''
     = weights"
  by (simp add: advanced_params_eq map_add_def split: option.split)

section \<open>The object through a lifetime\<close>

lemma invoke_object: "fst (invoke c (this, w)) = this"
  by (cases c) (simp_all add: downloadSound_object searchSounds_eq searchSounds_advanced_object)

lemma lifetime_object: "fst (lifetime cs (this, w)) = this"
proof (induction cs arbitrary: w)
  case Nil
  show ?case by simp
next
  case (Cons c cs)
  obtain this' w' where step: "invoke c (this, w) = (this', w')"
    by (cases "invoke c (this, w)")
  with invoke_object [of c this w] have "this' = this" by simp
  with step Cons.IH [of w'] show ?case by simp
qed

section \<open>The claims\<close>

text \<open>
  Claim C1. The advanced search never lets an exception reach its caller: in every world
  and for every input its result is a returned value. When the request gets a response,
  the result is the response body, present, if the status is 200 and absent otherwise.
  When the transport throws, the exception is caught and the result is absent.
\<close>

theorem searchSounds_advanced_never_throws:
  "(\<exists>r. fst (searchSounds_advanced this query filter' sort' page page_size group_by_pack weights w)
          = Inr r) \<and>
   (\<forall>response.
      transport w (advanced_request this query filter' sort' page page_size group_by_pack weights)
        = Inr response \<longrightarrow>
      fst (searchSounds_advanced this query filter' sort' page page_size group_by_pack weights w)
        = Inr (if status_code response = 200 then Some (response_text response) else None)) \<and>
   (\<forall>e.
      transport w (advanced_request this query filter' sort' page page_size group_by_pack weights)
        = Inl e \<longrightarrow>
      fst (searchSounds_advanced this query filter' sort' page page_size group_by_pack weights w)
        = Inr None)"
  by (simp add: searchSounds_advanced_result)

theorem searchSounds_advanced_never_throws_witness:
  "fst (searchSounds_advanced \<lparr>m_api_key = ''abc''\<rparr> ''piano'' (Some ''duration:[0 TO 30]'')
          (Some ''score'') 1 15 False None
          (offline_world\<lparr>transport :=
             (\<lambda>r. Inr \<lparr>status_code = 200, response_text = ''{\"count\": 42}''\<rparr>)\<rparr>))
     = Inr (Some ''{\"count\": 42}'') \<and>
   fst (searchSounds_advanced \<lparr>m_api_key = ''abc''\<rparr> ''piano'' (Some ''duration:[0 TO 30]'')
          (Some ''score'') 1 15 False None
          (offline_world\<lparr>transport :=
             (\<lambda>r. Inr \<lparr>status_code = 401, response_text = ''denied''\<rparr>)\<rparr>))
     = Inr None \<and>
   fst (searchSounds_advanced \<lparr>m_api_key = ''abc''\<rparr> ''piano'' (Some ''duration:[0 TO 30]'')
          (Some ''score'') 1 15 False None offline_world)
     = Inr None"
  using
    searchSounds_advanced_never_throws [of "\<lparr>m_api_key = ''abc''\<rparr>" "''piano''"
      "Some ''duration:[0 TO 30]''" "Some ''score''" 1 15 False None
      "offline_world\<lparr>transport :=
         (\<lambda>r. Inr \<lparr>status_code = 200, response_text = ''{\"count\": 42}''\<rparr>)\<rparr>"]
    searchSounds_advanced_never_throws [of "\<lparr>m_api_key = ''abc''\<rparr>" "''piano''"
      "Some ''duration:[0 TO 30]''" "Some ''score''" 1 15 False None
      "offline_world\<lparr>transport :=
         (\<lambda>r. Inr \<lparr>status_code = 401, response_text = ''denied''\<rparr>)\<rparr>"]
    searchSounds_advanced_never_throws [of "\<lparr>m_api_key = ''abc''\<rparr>" "''piano''"
      "Some ''duration:[0 TO 30]''" "Some ''score''" 1 15 False None offline_world]
  by (simp add: offline_world_def)

text \<open>
  Claim C2. For every sound identifier and every destination path \<open>P\<close>, if the download
  request gets a response with status 200 and body \<open>B\<close> and \<open>P\<close> is writable for
  \<open>B\<close> (it opens for writing and the stream takes all of \<open>B\<close>),
  \<open>downloadSound\<close> returns true and leaves at \<open>P\<close> a file whose contents are
  exactly \<open>B\<close>.
\<close>

theorem downloadSound_success:
  "transport w (download_request this sound_id) = Inr response \<Longrightarrow>
   status_code response = 200 \<Longrightarrow> writable w P (response_text response) \<Longrightarrow>
     fst (downloadSound this sound_id P w) = Inr True \<and>
     files (snd (snd (downloadSound this sound_id P w))) P = Some (response_text response)"
  by (simp add: downloadSound_written)

text \<open>
  A destination that holds an older, longer file and has room for exactly the four bytes
  of the body: the file is replaced by the body.
\<close>

theorem downloadSound_success_witness:
  "transport (offline_world\<lparr>transport := (\<lambda>r. Inr \<lparr>status_code = 200, response_text = ''RIFF''\<rparr>),
                           files := [''out.wav'' \<mapsto> ''older contents''],
                           openable := (\<lambda>p. True),
                           room := (\<lambda>p. Some 4)\<rparr>) (download_request \<lparr>m_api_key = ''abc''\<rparr> 42)
     = Inr \<lparr>status_code = 200, response_text = ''RIFF''\<rparr> \<and>
   writable (offline_world\<lparr>transport := (\<lambda>r. Inr \<lparr>status_code = 200, response_text = ''RIFF''\<rparr>),
                           files := [''out.wav'' \<mapsto> ''older contents''],
                           openable := (\<lambda>p. True),
                           room := (\<lambda>p. Some 4)\<rparr>) ''out.wav'' ''RIFF'' \<and>
   fst (downloadSound \<lparr>m_api_key = ''abc''\<rparr> 42 ''out.wav''
          (offline_world\<lparr>transport := (\<lambda>r. Inr \<lparr>status_code = 200, response_text = ''RIFF''\<rparr>),
                           files := [''out.wav'' \<mapsto> ''older contents''],
                           openable := (\<lambda>p. True),
                           room := (\<lambda>p. Some 4)\<rparr>)) = Inr True \<and>
   files (snd (snd (downloadSound \<lparr>m_api_key = ''abc''\<rparr> 42 ''out.wav''
          (offline_world\<lparr>transport := (\<lambda>r. Inr \<lparr>status_code = 200, response_text = ''RIFF''\<rparr>),
                           files := [''out.wav'' \<mapsto> ''older contents''],
                           openable := (\<lambda>p. True),
                           room := (\<lambda>p. Some 4)\<rparr>)))) ''out.wav'' = Some ''RIFF''"
  using downloadSound_success [of
      "offline_world\<lparr>transport := (\<lambda>r. Inr \<lparr>status_code = 200, response_text = ''RIFF''\<rparr>),
                      files := [''out.wav'' \<mapsto> ''older contents''],
                      openable := (\<lambda>p. True),
                      room := (\<lambda>p. Some 4)\<rparr>"
      "\<lparr>m_api_key = ''abc''\<rparr>" 42 "\<lparr>status_code = 200, response_text = ''RIFF''\<rparr>" "''out.wav''"]
  by (simp add: offline_world_def writable_def)

text \<open>
  Claim C3. For every sound identifier and destination path \<open>P\<close>, if the download
  request gets a response whose status is not 200, \<open>downloadSound\<close> returns false and
  the files are what they were: none created, none modified.
\<close>

theorem downloadSound_rejection_leaves_files:
  "transport w (download_request this sound_id) = Inr response \<Longrightarrow>
   status_code response \<noteq> 200 \<Longrightarrow>
     fst (downloadSound this sound_id P w) = Inr False \<and>
     files (snd (snd (downloadSound this sound_id P w))) = files w"
  by (simp add: downloadSound_rejected)

theorem downloadSound_rejection_leaves_files_witness:
  "status_code \<lparr>status_code = 404, response_text = ''Not found''\<rparr> \<noteq> 200 \<and>
   fst (downloadSound \<lparr>m_api_key = ''abc''\<rparr> 42 ''out.wav''
          (offline_world\<lparr>transport := (\<lambda>r. Inr \<lparr>status_code = 404, response_text = ''Not found''\<rparr>),
                           files := [''out.wav'' \<mapsto> ''old''],
                           openable := (\<lambda>p. True)\<rparr>)) = Inr False \<and>
   files (snd (snd (downloadSound \<lparr>m_api_key = ''abc''\<rparr> 42 ''out.wav''
          (offline_world\<lparr>transport := (\<lambda>r. Inr \<lparr>status_code = 404, response_text = ''Not found''\<rparr>),
                           files := [''out.wav'' \<mapsto> ''old''],
                           openable := (\<lambda>p. True)\<rparr>)))) ''out.wav'' = Some ''old''"
  using downloadSound_rejection_leaves_files [of
      "offline_world\<lparr>transport := (\<lambda>r. Inr \<lparr>status_code = 404, response_text = ''Not found''\<rparr>),
                      files := [''out.wav'' \<mapsto> ''old''],
                      openable := (\<lambda>p. True)\<rparr>"
      "\<lparr>m_api_key = ''abc''\<rparr>" 42 "\<lparr>status_code = 404, response_text = ''Not found''\<rparr>" "''out.wav''"]
  by (simp add: offline_world_def)

text \<open>
  Claim C4. For every input to the advanced search, the parameters of the request it sends
  have pairwise different keys and hold: the query, the page and the page size in decimal,
  the fixed field list, and \<open>group_by_pack\<close> as \<open>1\<close> when the flag is true and
  \<open>0\<close> when it is false. Each of \<open>filter\<close>, \<open>sort\<close> and \<open>weights\<close> maps
  to the supplied value when one is supplied, and is a key of the request exactly when one
  is supplied.
\<close>

theorem advanced_request_parameters:
  "(let sent = last (requests (snd (snd
        (searchSounds_advanced this query filter' sort' page page_size group_by_pack weights w))));
        ps = parameters sent
    in distinct (map fst ps) \<and>
       map_of ps ''query'' = Some query \<and>
       map_of ps ''page'' = Some (to_string page) \<and>
       map_of ps ''page_size'' = Some (to_string page_size) \<and>
       map_of ps ''fields'' = Some ''id,name,username,description,tags,preview-hq-mp3,duration'' \<and>
       map_of ps ''group_by_pack'' = Some (if group_by_pack then ''1'' else ''0'') \<and>
       map_of ps ''filter'' = filter' \<and>
       map_of ps ''sort'' = sort' \<and>
       map_of ps ''weights'' = weights \<and>
       (''filter'' \<in> fst ` set ps) = (filter' \<noteq> None) \<and>
       (''sort'' \<in> fst ` set ps) = (sort' \<noteq> None) \<and>
       (''weights'' \<in> fst ` set ps) = (weights \<noteq> None))"
proof -
  let ?ps = "advanced_params query filter' sort' page page_size group_by_pack weights"
  have sent: "parameters (last (requests (snd (snd
        (searchSounds_advanced this query filter' sort' page page_size group_by_pack weights w)))))
      = ?ps"
    by (simp add: searchSounds_advanced_requests advanced_request_def)
  have present: "(k \<in> fst ` set ?ps) = (map_of ?ps k \<noteq> None)" for k
    by (simp add: map_of_eq_None_iff)
  show ?thesis
    unfolding Let_def sent present
    by (simp add: advanced_params_distinct advanced_params_always advanced_params_group_by_pack
        advanced_params_filter advanced_params_sort advanced_params_weights fields_value_def)
qed

theorem advanced_request_parameters_witness:
  "parameters (last (requests (snd (snd
      (searchSounds_advanced \<lparr>m_api_key = ''abc''\<rparr> ''guitar''
         (Some ''type:wav duration:[10 TO 60]'') (Some ''num_downloads_desc'') 1 20 True
         (Some ''tag:4,description:3'') offline_world)))))
     = [(''query'', ''guitar''), (''page'', ''1''), (''page_size'', ''20''),
        (''fields'', ''id,name,username,description,tags,preview-hq-mp3,duration''),
        (''filter'', ''type:wav duration:[10 TO 60]''), (''sort'', ''num_downloads_desc''),
        (''group_by_pack'', ''1''), (''weights'', ''tag:4,description:3'')] \<and>
   parameters (last (requests (snd (snd
      (searchSounds_advanced \<lparr>m_api_key = ''abc''\<rparr> ''piano'' None None 1 15 False None
         offline_world)))))
     = [(''query'', ''piano''), (''page'', ''1''), (''page_size'', ''15''),
        (''fields'', ''id,name,username,description,tags,preview-hq-mp3,duration''),
        (''group_by_pack'', ''0'')]"
  using
    advanced_request_parameters [of "\<lparr>m_api_key = ''abc''\<rparr>" "''guitar''"
      "Some ''type:wav duration:[10 TO 60]''" "Some ''num_downloads_desc''" 1 20 True
      "Some ''tag:4,description:3''" offline_world]
    advanced_request_parameters [of "\<lparr>m_api_key = ''abc''\<rparr>" "''piano''" None None 1 15 False
      None offline_world]
  by (simp add: searchSounds_advanced_requests advanced_request_def advanced_params_eq
      fields_value_def to_string_def to_string_int_def decimal_digits.simps digit_char_def)

text \<open>
  Claim C5. When the request of the simple search gets a response, the result is the
  response body, present, if the status is 200, and absent if it is not. This holds for
  every query, the empty one included, and every page and page size.
\<close>

theorem searchSounds_simple_result:
  "transport w (search_request this query page page_size) = Inr response \<Longrightarrow>
     (status_code response = 200 \<longrightarrow>
        fst (searchSounds this query page page_size w) = Inr (Some (response_text response))) \<and>
     (status_code response \<noteq> 200 \<longrightarrow>
        fst (searchSounds this query page page_size w) = Inr None)"
  by (simp add: searchSounds_eq)

theorem searchSounds_simple_result_witness:
  "fst (searchSounds \<lparr>m_api_key = ''abc''\<rparr> ''piano'' 1 15
          (offline_world\<lparr>transport :=
             (\<lambda>r. Inr \<lparr>status_code = 200, response_text = ''{\"count\": 42}''\<rparr>)\<rparr>))
     = Inr (Some ''{\"count\": 42}'') \<and>
   fst (searchSounds \<lparr>m_api_key = ''abc''\<rparr> ''piano'' 1 15
          (offline_world\<lparr>transport :=
             (\<lambda>r. Inr \<lparr>status_code = 500, response_text = ''error''\<rparr>)\<rparr>))
     = Inr None"
  using
    searchSounds_simple_result [of
      "offline_world\<lparr>transport :=
         (\<lambda>r. Inr \<lparr>status_code = 200, response_text = ''{\"count\": 42}''\<rparr>)\<rparr>"
      "\<lparr>m_api_key = ''abc''\<rparr>" "''piano''" 1 15
      "\<lparr>status_code = 200, response_text = ''{\"count\": 42}''\<rparr>"]
    searchSounds_simple_result [of
      "offline_world\<lparr>transport :=
         (\<lambda>r. Inr \<lparr>status_code = 500, response_text = ''error''\<rparr>)\<rparr>"
      "\<lparr>m_api_key = ''abc''\<rparr>" "''piano''" 1 15
      "\<lparr>status_code = 500, response_text = ''error''\<rparr>"]
  by (simp add: offline_world_def)

text \<open>
  Claim C6. Construction resolves the token in order. A non-empty explicit token is the
  one stored. With an empty explicit token, a non-empty value of the environment variable
  \<open>FREESOUND_API_KEY\<close> is the one stored. Construction throws if and only if the
  explicit token is empty and the variable is unset or empty, and what it throws is the
  \<open>std::invalid_argument\<close> with the authentication message.
\<close>

theorem Downloader_ctor_resolution:
  "(api_key \<noteq> [] \<longrightarrow> Downloader_ctor w api_key = Inr \<lparr>m_api_key = api_key\<rparr>) \<and>
   (api_key = [] \<longrightarrow> getenv w ''FREESOUND_API_KEY'' = Some k \<longrightarrow> k \<noteq> [] \<longrightarrow>
      Downloader_ctor w api_key = Inr \<lparr>m_api_key = k\<rparr>) \<and>
   ((\<exists>e. Downloader_ctor w api_key = Inl e) \<longleftrightarrow>
      (api_key = [] \<and> (getenv w ''FREESOUND_API_KEY'' = None
                        \<or> getenv w ''FREESOUND_API_KEY'' = Some []))) \<and>
   (\<forall>e. Downloader_ctor w api_key = Inl e \<longrightarrow> e = InvalidArgument auth_failed_message)"
proof (cases "api_key = []")
  case False
  then show ?thesis
    by (simp add: Downloader_ctor_explicit)
next
  case True
  then show ?thesis
    by (cases "getenv w ''FREESOUND_API_KEY''") (auto simp: Downloader_ctor_empty)
qed

text \<open>
  The four cases at concrete inputs: an explicit token; an empty token with the variable
  set (the test "Downloader Initialization" sets it to \<open>test_api_key\<close>); an empty token
  with the variable unset; an empty token with the variable set to the empty string.
\<close>

theorem Downloader_ctor_resolution_witness:
  "Downloader_ctor offline_world ''abc'' = Inr \<lparr>m_api_key = ''abc''\<rparr> \<and>
   Downloader_ctor (offline_world\<lparr>environ := [''FREESOUND_API_KEY'' \<mapsto> ''test_api_key'']\<rparr>) []
     = Inr \<lparr>m_api_key = ''test_api_key''\<rparr> \<and>
   Downloader_ctor offline_world [] = Inl (InvalidArgument auth_failed_message) \<and>
   Downloader_ctor (offline_world\<lparr>environ := [''FREESOUND_API_KEY'' \<mapsto> []]\<rparr>) []
     = Inl (InvalidArgument auth_failed_message)"
  using
    Downloader_ctor_resolution [of "''abc''" offline_world]
    Downloader_ctor_resolution [of "[]"
      "offline_world\<lparr>environ := [''FREESOUND_API_KEY'' \<mapsto> ''test_api_key'']\<rparr>"
      "''test_api_key''"]
    Downloader_ctor_resolution [of "[]" offline_world]
    Downloader_ctor_resolution [of "[]"
      "offline_world\<lparr>environ := [''FREESOUND_API_KEY'' \<mapsto> []]\<rparr>"]
  by (auto simp: getenv_def offline_world_def)

text \<open>
  Claim C7. With a non-empty explicit token, construction succeeds and stores that token
  whatever the world is, so for any two worlds (any two states of the environment
  variable among them) the outcome is the same.
\<close>

theorem Downloader_ctor_environment_independent:
  "api_key \<noteq> [] \<Longrightarrow>
     Downloader_ctor w1 api_key = Inr \<lparr>m_api_key = api_key\<rparr> \<and>
     Downloader_ctor w2 api_key = Downloader_ctor w1 api_key"
  by (simp add: Downloader_ctor_def)

theorem Downloader_ctor_environment_independent_witness:
  "''abc'' \<noteq> [] \<and>
   Downloader_ctor offline_world ''abc'' = Inr \<lparr>m_api_key = ''abc''\<rparr> \<and>
   Downloader_ctor (offline_world\<lparr>environ := [''FREESOUND_API_KEY'' \<mapsto> ''other'']\<rparr>) ''abc''
     = Downloader_ctor offline_world ''abc''"
  using Downloader_ctor_environment_independent [of "''abc''" offline_world
      "offline_world\<lparr>environ := [''FREESOUND_API_KEY'' \<mapsto> ''other'']\<rparr>"]
  by simp

text \<open>
  Claim C8. If the download request gets a response with status 200 and the destination
  path does not open for writing, \<open>downloadSound\<close> returns false, and that result is
  equal to the one a remote rejection (a status other than 200, in any world) gives: the
  caller sees the same value for both causes.
\<close>

theorem downloadSound_open_failure:
  "transport w (download_request this sound_id) = Inr response \<Longrightarrow>
   status_code response = 200 \<Longrightarrow> \<not> openable w P \<Longrightarrow>
   transport w' (download_request this sound_id) = Inr response' \<Longrightarrow>
   status_code response' \<noteq> 200 \<Longrightarrow>
     fst (downloadSound this sound_id P w) = Inr False \<and>
     fst (downloadSound this sound_id P w) = fst (downloadSound this sound_id P w')"
  by (simp add: downloadSound_not_opened downloadSound_rejected)

theorem downloadSound_open_failure_witness:
  "\<not> openable (offline_world\<lparr>transport := (\<lambda>r. Inr \<lparr>status_code = 200, response_text = ''RIFF''\<rparr>)\<rparr>)
       ''/no/such/dir/out.wav'' \<and>
   fst (downloadSound \<lparr>m_api_key = ''abc''\<rparr> 42 ''/no/such/dir/out.wav''
          (offline_world\<lparr>transport := (\<lambda>r. Inr \<lparr>status_code = 200, response_text = ''RIFF''\<rparr>)\<rparr>))
     = Inr False \<and>
   fst (downloadSound \<lparr>m_api_key = ''abc''\<rparr> 42 ''/no/such/dir/out.wav''
          (offline_world\<lparr>transport := (\<lambda>r. Inr \<lparr>status_code = 200, response_text = ''RIFF''\<rparr>)\<rparr>))
     = fst (downloadSound \<lparr>m_api_key = ''abc''\<rparr> 42 ''/no/such/dir/out.wav''
          (offline_world\<lparr>transport := (\<lambda>r. Inr \<lparr>status_code = 401, response_text = []\<rparr>),
                           openable := (\<lambda>p. True)\<rparr>))"
  using downloadSound_open_failure [of
      "offline_world\<lparr>transport := (\<lambda>r. Inr \<lparr>status_code = 200, response_text = ''RIFF''\<rparr>)\<rparr>"
      "\<lparr>m_api_key = ''abc''\<rparr>" 42 "\<lparr>status_code = 200, response_text = ''RIFF''\<rparr>"
      "''/no/such/dir/out.wav''"
      "offline_world\<lparr>transport := (\<lambda>r. Inr \<lparr>status_code = 401, response_text = []\<rparr>),
                      openable := (\<lambda>p. True)\<rparr>"
      "\<lparr>status_code = 401, response_text = []\<rparr>"]
  by (auto simp: offline_world_def)

text \<open>
  Claim C9. The token of a client that construction returned is non-empty, and every
  operation returns the client with the token it had: \<open>downloadSound\<close>, the simple
  search and the advanced search each, in any world, and so any sequence of them.
\<close>

theorem api_key_invariant:
  "Downloader_ctor w_init api_key = Inr this \<Longrightarrow>
     m_api_key this \<noteq> [] \<and>
     m_api_key (fst (snd (downloadSound this sound_id output_path w))) = m_api_key this \<and>
     m_api_key (fst (snd (searchSounds this query page page_size w))) = m_api_key this \<and>
     m_api_key (fst (snd (searchSounds_advanced this query filter' sort' page page_size
                            group_by_pack weights w))) = m_api_key this \<and>
     m_api_key (fst (lifetime cs (this, w))) = m_api_key this"
  by (simp add: Downloader_ctor_nonempty downloadSound_object searchSounds_eq
      searchSounds_advanced_object lifetime_object)

theorem api_key_invariant_witness:
  "Downloader_ctor offline_world ''abc'' = Inr \<lparr>m_api_key = ''abc''\<rparr> \<and>
   m_api_key (fst (lifetime
       [SearchSounds ''piano'' 1 15,
        DownloadSound 42 ''out.wav'',
        SearchSoundsAdvanced ''guitar'' (Some ''type:wav'') None 1 20 True None]
       (\<lparr>m_api_key = ''abc''\<rparr>,
        offline_world\<lparr>transport := (\<lambda>r. Inr \<lparr>status_code = 200, response_text = ''RIFF''\<rparr>),
                        openable := (\<lambda>p. True)\<rparr>))) = ''abc''"
  using api_key_invariant [where w_init = offline_world and api_key = "''abc''"
      and this = "\<lparr>m_api_key = ''abc''\<rparr>"
      and w = "offline_world\<lparr>transport := (\<lambda>r. Inr \<lparr>status_code = 200, response_text = ''RIFF''\<rparr>),
                            openable := (\<lambda>p. True)\<rparr>"
      and cs = "[SearchSounds ''piano'' 1 15,
                 DownloadSound 42 ''out.wav'',
                 SearchSoundsAdvanced ''guitar'' (Some ''type:wav'') None 1 20 True None]"]
  by (simp add: Downloader_ctor_def)

text \<open>
  Claim C10. \<open>downloadSound\<close> does not examine the identifier. For every 32-bit
  \<open>sound_id\<close>, zero and the negative ones included, the call hands \<open>cpr::Get\<close>
  exactly one request; its URL is the base URL, \<open>sounds/\<close>, the decimal rendering of
  \<open>sound_id\<close> (a numeral that denotes the signed value) and \<open>/download/\<close>; and
  the result is the transport's exception if it throws, and otherwise true exactly when
  the status is 200 and the destination opens for writing.
\<close>

theorem downloadSound_any_identifier:
  "requests (snd (snd (downloadSound this sound_id output_path w)))
     = requests w @ [download_request this sound_id] \<and>
   url (download_request this sound_id)
     = ''https://freesound.org/apiv2/sounds/'' @ to_string sound_id @ ''/download/'' \<and>
   decimal_value (to_string sound_id) = sint sound_id \<and>
   fst (downloadSound this sound_id output_path w)
     = (case transport w (download_request this sound_id) of
          Inl e \<Rightarrow> Inl e
        | Inr response \<Rightarrow> Inr (status_code response = 200 \<and> openable w output_path))"
  by (simp add: downloadSound_requests downloadSound_result decimal_value_to_string
      download_request_def BASE_URL_def)

theorem downloadSound_any_identifier_witness:
  "url (last (requests (snd (snd (downloadSound \<lparr>m_api_key = ''abc''\<rparr> 0 ''out.wav''
        (offline_world\<lparr>transport := (\<lambda>r. Inr \<lparr>status_code = 200, response_text = ''RIFF''\<rparr>),
                        openable := (\<lambda>p. True)\<rparr>))))))
     = ''https://freesound.org/apiv2/sounds/0/download/'' \<and>
   fst (downloadSound \<lparr>m_api_key = ''abc''\<rparr> 0 ''out.wav''
        (offline_world\<lparr>transport := (\<lambda>r. Inr \<lparr>status_code = 200, response_text = ''RIFF''\<rparr>),
                        openable := (\<lambda>p. True)\<rparr>)) = Inr True \<and>
   url (last (requests (snd (snd (downloadSound \<lparr>m_api_key = ''abc''\<rparr> (- 7) ''out.wav''
        (offline_world\<lparr>transport := (\<lambda>r. Inr \<lparr>status_code = 404, response_text = []\<rparr>),
                        openable := (\<lambda>p. True)\<rparr>))))))
     = ''https://freesound.org/apiv2/sounds/-7/download/'' \<and>
   fst (downloadSound \<lparr>m_api_key = ''abc''\<rparr> (- 7) ''out.wav''
        (offline_world\<lparr>transport := (\<lambda>r. Inr \<lparr>status_code = 404, response_text = []\<rparr>),
                        openable := (\<lambda>p. True)\<rparr>)) = Inr False"
  using
    downloadSound_any_identifier [of "\<lparr>m_api_key = ''abc''\<rparr>" 0 "''out.wav''"
      "offline_world\<lparr>transport := (\<lambda>r. Inr \<lparr>status_code = 200, response_text = ''RIFF''\<rparr>),
                      openable := (\<lambda>p. True)\<rparr>"]
    downloadSound_any_identifier [of "\<lparr>m_api_key = ''abc''\<rparr>" "- 7" "''out.wav''"
      "offline_world\<lparr>transport := (\<lambda>r. Inr \<lparr>status_code = 404, response_text = []\<rparr>),
                      openable := (\<lambda>p. True)\<rparr>"]
  by (simp add: offline_world_def to_string_def to_string_int_def decimal_digits.simps
      digit_char_def)

end
